theory Spec2Isabelle
  imports Complex_Main
begin

section \<open>Python primitives used by app.py\<close>

text \<open>
  Strings are byte strings; \<open>str.isdigit\<close>, \<open>int(s)\<close> and \<open>str(i)\<close> are modelled on ASCII
  decimal digits. Python floats (notional, thresholds, medians) are modelled as exact
  rationals: the program only multiplies, halves and compares them.
\<close>

definition is_digit :: "char \<Rightarrow> bool" where
  "is_digit c = (48 \<le> (of_char c :: nat) \<and> (of_char c :: nat) \<le> 57)"

definition isdigit :: "string \<Rightarrow> bool" where
  "isdigit s = (s \<noteq> [] \<and> list_all is_digit s)"

definition digit_val :: "char \<Rightarrow> nat" where
  "digit_val c = of_char c - 48"

definition int_of_digits :: "string \<Rightarrow> int" where
  "int_of_digits s = int (foldl (\<lambda>a c. 10 * a + digit_val c) 0 s)"

function str_of_nat :: "nat \<Rightarrow> string" where
  "str_of_nat n =
     (if n < 10 then [char_of (48 + n)]
      else str_of_nat (n div 10) @ [char_of (48 + n mod 10)])"
  by pat_completeness auto
termination
  by (relation "measure (\<lambda>n. n)") auto

declare str_of_nat.simps [simp del]

definition py_str :: "int \<Rightarrow> string" where
  "py_str i = (if i < 0 then CHR ''-'' # str_of_nat (nat (- i)) else str_of_nat (nat i))"

definition upper_char :: "char \<Rightarrow> char" where
  "upper_char c =
     (if 97 \<le> (of_char c :: nat) \<and> (of_char c :: nat) \<le> 122
      then char_of ((of_char c :: nat) - 32) else c)"

definition upper :: "string \<Rightarrow> string" where
  "upper s = map upper_char s"

fun starts_with :: "string \<Rightarrow> string \<Rightarrow> bool" where
  "starts_with [] s = True"
| "starts_with (p # ps) [] = False"
| "starts_with (p # ps) (c # cs) = (p = c \<and> starts_with ps cs)"

text \<open>\<open>contains sub s\<close> is Python's \<open>sub in s\<close>.\<close>

fun contains :: "string \<Rightarrow> string \<Rightarrow> bool" where
  "contains sub [] = (sub = [])"
| "contains sub (c # cs) = (starts_with sub (c # cs) \<or> contains sub cs)"

text \<open>\<open>join sep xs\<close> is Python's \<open>sep.join(xs)\<close>.\<close>

fun join :: "string \<Rightarrow> string list \<Rightarrow> string" where
  "join sep [] = []"
| "join sep [x] = x"
| "join sep (x # y # ys) = x @ sep @ join sep (y # ys)"

definition is_space :: "char \<Rightarrow> bool" where
  "is_space c = (c \<in> set [CHR '' '', CHR 0x09, CHR 0x0A, CHR 0x0B, CHR 0x0C, CHR 0x0D])"

definition strip :: "string \<Rightarrow> string" where
  "strip s = rev (dropWhile is_space (rev (dropWhile is_space s)))"

text \<open>\<open>int(x)\<close> on a float truncates toward zero.\<close>

definition py_trunc :: "rat \<Rightarrow> int" where
  "py_trunc q = (if q < 0 then - \<lfloor>- q\<rfloor> else \<lfloor>q\<rfloor>)"

section \<open>Exceptions\<close>

text \<open>
  What \<open>client.get\<close> can raise, by httpx's classes: the four NetworkError classes, the
  four TimeoutException classes, and \<open>OtherExc\<close> for any other exception.
\<close>

datatype transport_exn =
  ConnectError | ReadError | WriteError | CloseError
| ConnectTimeout | ReadTimeout | WriteTimeout | PoolTimeout
| OtherExc

text \<open>
  The exceptions that leave the functions below. \<open>ServerError c\<close> is
  \<open>RuntimeError(f"{c} server error")\<close>, \<open>AllHostsFailed\<close> is \<open>RuntimeError("All hosts failed")\<close>,
  \<open>TransportError x\<close> is the exception \<open>x\<close> of \<open>client.get\<close> raised again, \<open>JSONDecodeError\<close>
  is what \<open>r.json()\<close> raises on a body that is not JSON, \<open>SendError\<close> is an exception of
  \<open>bot.send_message\<close> other than TelegramNetworkError, \<open>TimeError\<close> is what
  \<open>datetime.fromtimestamp\<close> raises for a time it cannot represent, and the last two are
  the errors of the SQLite binding.
\<close>

datatype py_exn =
  HTTPStatusError nat | ServerError nat | TransportError transport_exn | JSONDecodeError
| AllHostsFailed | SendError | TimeError | IntegrityError | OverflowError

section \<open>The SQLite store\<close>

text \<open>
  The four tables of \<open>SCHEMA_SQL\<close>. \<open>prints\<close> keeps its rows in insertion order and has
  \<open>trade_id\<close> as primary key; \<open>stats\<close> and \<open>meta\<close> are keyed tables with one value column.
\<close>

record print_row =
  pr_trade_id :: string
  pr_ts_ms :: int
  pr_ticker :: string
  pr_side :: string
  pr_count :: int
  pr_yes_cents :: int
  pr_notional_usd :: rat
  pr_flags :: string

record sub_row =
  sb_user_id :: int
  sb_alerts_on :: int
  sb_thresh_usd :: rat
  sb_topic :: string
  sb_tz :: string

record db =
  subs :: "sub_row list"
  prints :: "print_row list"
  stats :: "string \<rightharpoonup> int"
  meta :: "string \<rightharpoonup> string"

text \<open>
  SQLite integers are signed 64-bit. Binding a Python integer outside that range to a
  parameter of any statement raises OverflowError before the statement runs, so the
  statement then reads and writes nothing.
\<close>

definition int64 :: "int \<Rightarrow> bool" where
  "int64 i = (- 9223372036854775808 \<le> i \<and> i \<le> 9223372036854775807)"


definition db_set :: "db \<Rightarrow> string \<Rightarrow> string \<Rightarrow> db" where
  "db_set d key v = d\<lparr>meta := (meta d)(key \<mapsto> v)\<rparr>"

definition last_trade_ts_for_ticker :: "db \<Rightarrow> string \<Rightarrow> int" where
  "last_trade_ts_for_ticker d ticker = (case stats d ticker of Some v \<Rightarrow> v | None \<Rightarrow> 0)"

text \<open>
  In the functions that can raise, \<open>Inl\<close> is the exception that leaves the function, the
  store being as it was before the call, and \<open>Inr\<close> is the store after it.
\<close>

definition update_last_trade_ts :: "db \<Rightarrow> string \<Rightarrow> int \<Rightarrow> py_exn + db" where
  "update_last_trade_ts d ticker ts_ms =
     (if int64 ts_ms then Inr (d\<lparr>stats := (stats d)(ticker \<mapsto> ts_ms)\<rparr>)
      else Inl OverflowError)"

text \<open>
  The \<open>INSERT INTO prints\<close> statement: an integer parameter out of range raises
  OverflowError, a primary-key conflict raises IntegrityError.
\<close>

definition insert_print :: "db \<Rightarrow> print_row \<Rightarrow> py_exn + db" where
  "insert_print d r =
     (if \<not> (int64 (pr_ts_ms r) \<and> int64 (pr_count r) \<and> int64 (pr_yes_cents r))
        then Inl OverflowError
      else if pr_trade_id r \<in> set (map pr_trade_id (prints d)) then Inl IntegrityError
      else Inr (d\<lparr>prints := prints d @ [r]\<rparr>))"

text \<open>\<open>store_print\<close> catches \<open>aiosqlite.IntegrityError\<close> and nothing else.\<close>

definition store_print ::
  "db \<Rightarrow> string \<Rightarrow> int \<Rightarrow> string \<Rightarrow> string \<Rightarrow> int \<Rightarrow> int \<Rightarrow> rat \<Rightarrow> string list \<Rightarrow> py_exn + db"
  where
  "store_print d trade_id ts_ms ticker side cnt yes_cents notional_usd flags =
     (case insert_print d
        \<lparr>pr_trade_id = trade_id, pr_ts_ms = ts_ms, pr_ticker = ticker, pr_side = side,
         pr_count = cnt, pr_yes_cents = yes_cents, pr_notional_usd = notional_usd,
         pr_flags = join '','' flags\<rparr> of
        Inr d' \<Rightarrow> Inr d'
      | Inl IntegrityError \<Rightarrow> Inr d
      | Inl x \<Rightarrow> Inl x)"

definition load_subscribers :: "db \<Rightarrow> sub_row list" where
  "load_subscribers d = subs d"

text \<open>
  \<open>SELECT count FROM prints WHERE ticker=? AND ts_ms>=? ORDER BY ts_ms DESC LIMIT 5000\<close>,
  with \<open>since = now_ms() - 24*3600*1000\<close>; rows of equal \<open>ts_ms\<close> are taken in insertion
  order.
\<close>

definition ticker_recent_counts_24h :: "int \<Rightarrow> db \<Rightarrow> string \<Rightarrow> py_exn + int list" where
  "ticker_recent_counts_24h now d ticker =
     (let since = now - 24 * 3600 * 1000 in
      if int64 since then
        Inr (map pr_count
          (take 5000
            (sort_key (\<lambda>r. - pr_ts_ms r)
              (filter (\<lambda>r. pr_ticker r = ticker \<and> pr_ts_ms r \<ge> since) (prints d)))))
      else Inl OverflowError)"

text \<open>\<open>SELECT COUNT(*) FROM prints WHERE ticker=? AND ts_ms>=? AND notional_usd>=?\<close>\<close>

definition count_recent_big :: "db \<Rightarrow> string \<Rightarrow> int \<Rightarrow> rat \<Rightarrow> py_exn + nat" where
  "count_recent_big d ticker since thresh =
     (if int64 since then
        Inr (length (filter
          (\<lambda>r. pr_ticker r = ticker \<and> pr_ts_ms r \<ge> since \<and> pr_notional_usd r \<ge> thresh)
          (prints d)))
      else Inl OverflowError)"

definition median :: "int list \<Rightarrow> rat" where
  "median lst =
     (if lst = [] then 0
      else (let a = sort lst; n = length a; mid = n div 2 in
            if n mod 2 \<noteq> 0 then of_int (a ! mid)
            else (of_int (a ! (mid - 1)) + of_int (a ! mid)) / 2))"

section \<open>Trade normalisation\<close>

text \<open>
  A raw trade is the JSON object of the upstream feed, restricted to the keys app.py reads
  and typed as the feed documents them: identifiers, symbols and sides are strings, counts
  are integers, prices are numbers, timestamps are strings or integers. \<open>None\<close> is an
  absent key.
\<close>

datatype raw_time = TStr string | TInt int

record raw_trade =
  t_id :: "string option"
  t_trade_id :: "string option"
  t_ticker :: "string option"
  t_market :: "string option"
  t_created_time :: "raw_time option"
  t_ts :: "raw_time option"
  t_side :: "string option"
  t_direction :: "string option"
  t_count :: "int option"
  t_size :: "int option"
  t_yes_price :: "rat option"
  t_price :: "rat option"
  t_yes_price_dollars :: "rat option"

text \<open>
  Configuration read once at import time, and the date library: \<open>DEFAULT_THRESH\<close>; the
  function behind \<open>datetime.fromisoformat(s).timestamp() * 1000\<close> (\<open>None\<close> where it raises);
  and whether \<open>local_time_str(ts_ms, tz_str)\<close> returns, which it does when one of its two
  calls of \<open>datetime.fromtimestamp\<close>, in the zone and then in UTC, does: the second is
  outside any \<open>try\<close>, and raises for a time outside the years 1 to 9999.
\<close>

record config =
  default_thresh :: rat
  iso_ms :: "string \<Rightarrow> int option"
  time_ok :: "int \<Rightarrow> string \<Rightarrow> bool"

text \<open>Python's \<open>a or b\<close> on two optional values: \<open>a\<close> when it is truthy, else \<open>b\<close> as it is.\<close>

definition por :: "('a \<Rightarrow> bool) \<Rightarrow> 'a option \<Rightarrow> 'a option \<Rightarrow> 'a option" where
  "por truthy a b = (case a of Some x \<Rightarrow> if truthy x then Some x else b | None \<Rightarrow> b)"

definition truthy_str :: "string \<Rightarrow> bool" where
  "truthy_str s = (s \<noteq> [])"

fun truthy_time :: "raw_time \<Rightarrow> bool" where
  "truthy_time (TStr s) = (s \<noteq> [])"
| "truthy_time (TInt i) = (i \<noteq> 0)"

fun str_time :: "raw_time \<Rightarrow> string" where
  "str_time (TStr s) = s"
| "str_time (TInt i) = py_str i"

definition replace_Z :: "string \<Rightarrow> string" where
  "replace_Z s = concat (map (\<lambda>c. if c = CHR ''Z'' then ''+00:00'' else [c]) s)"

definition parse_ts_to_ms :: "config \<Rightarrow> int \<Rightarrow> raw_time option \<Rightarrow> int" where
  "parse_ts_to_ms cfg now ts =
     (case ts of
        None \<Rightarrow> now
      | Some t \<Rightarrow>
          (let s = str_time t in
           if isdigit s then
             (let v = int_of_digits s in if v > 10000000000 then v else v * 1000)
           else (case iso_ms cfg (replace_Z s) of Some ms \<Rightarrow> ms | None \<Rightarrow> now)))"

definition trade_count :: "raw_trade \<Rightarrow> int" where
  "trade_count tr =
     (case por (\<lambda>c. c \<noteq> 0) (t_count tr) (t_size tr) of Some c \<Rightarrow> c | None \<Rightarrow> 0)"

definition trade_notional_usd :: "raw_trade \<Rightarrow> rat" where
  "trade_notional_usd tr =
     (let cnt = trade_count tr;
          dollars = t_yes_price_dollars tr;
          cents = (case t_yes_price tr of Some p \<Rightarrow> Some p | None \<Rightarrow> t_price tr)
      in case dollars of
           Some d \<Rightarrow> of_int cnt * d
         | None \<Rightarrow> (case cents of Some c \<Rightarrow> of_int cnt * (c / 100) | None \<Rightarrow> 0))"

definition synth_id :: "raw_trade \<Rightarrow> string" where
  "synth_id tr =
     ''t_'' @ (case t_ticker tr of Some s \<Rightarrow> s | None \<Rightarrow> []) @ ''_''
       @ (case t_created_time tr of Some t \<Rightarrow> str_time t | None \<Rightarrow> []) @ ''_''
       @ (case t_count tr of Some c \<Rightarrow> py_str c | None \<Rightarrow> [])"

definition trade_core_fields ::
  "config \<Rightarrow> int \<Rightarrow> raw_trade \<Rightarrow> string \<times> int \<times> string \<times> string \<times> int \<times> int" where
  "trade_core_fields cfg now tr =
     (let trade_id = (case por truthy_str (t_id tr) (t_trade_id tr) of
                        Some s \<Rightarrow> if truthy_str s then s else synth_id tr
                      | None \<Rightarrow> synth_id tr);
          ts_ms = parse_ts_to_ms cfg now (por truthy_time (t_created_time tr) (t_ts tr));
          ticker = upper (case por truthy_str (t_ticker tr) (t_market tr) of
                            Some s \<Rightarrow> s | None \<Rightarrow> []);
          side0 = upper (case por truthy_str (t_side tr) (t_direction tr) of
                           Some s \<Rightarrow> s | None \<Rightarrow> []);
          side = (if truthy_str side0 then side0 else ''UNKNOWN'');
          cnt = trade_count tr;
          yes_cents = py_trunc (case por (\<lambda>p. p \<noteq> 0) (t_yes_price tr) (t_price tr) of
                                  Some p \<Rightarrow> p | None \<Rightarrow> 0)
      in (trade_id, ts_ms, ticker, side, cnt, yes_cents))"

definition categorize_ticker :: "string \<Rightarrow> string" where
  "categorize_ticker tk =
     (let t = upper tk in
      if contains ''BTC'' t \<or> contains ''CRYPTO'' t then ''crypto''
      else if list_ex (\<lambda>k. contains k t) [''CPI'', ''FED'', ''RATE'', ''UNEMP'', ''GDP'', ''PCE'']
        then ''macro''
      else if list_ex (\<lambda>k. contains k t) [''NFL'', ''NBA'', ''MLB'', ''NHL'', ''EPL'']
        then ''sports''
      else ''other'')"

definition topic_match :: "string \<Rightarrow> string \<Rightarrow> bool" where
  "topic_match user_topic tk = (user_topic = ''all'' \<or> categorize_ticker tk = user_topic)"

definition clean_title :: "string option \<Rightarrow> string \<Rightarrow> string" where
  "clean_title t fallback =
     (case t of
        Some s \<Rightarrow> if s \<noteq> [] \<and> strip s \<noteq> [] then strip s else fallback
      | None \<Rightarrow> fallback)"

definition kalshi_market_url_from_ticker :: "string \<Rightarrow> string" where
  "kalshi_market_url_from_ticker ticker = ''https://kalshi.com/?search='' @ upper ticker"

section \<open>KalshiHTTP: host failover and the min_ts capability\<close>

datatype param_val = PInt int | PStr string

type_synonym params = "(string \<times> param_val) list"

record request =
  rq_url :: string
  rq_params :: params

text \<open>The JSON object of a response; \<open>None\<close> is an absent key.\<close>

record body =
  b_trades :: "raw_trade list option"
  b_data :: "raw_trade list option"
  b_results :: "raw_trade list option"

text \<open>
  What \<open>client.get\<close> does: it returns a response (status code, and the decoded JSON, \<open>None\<close>
  where \<open>r.json()\<close> raises), or raises.
\<close>

datatype get_outcome = Resp nat "body option" | GetRaised transport_exn

text \<open>
  The upstream is outside the program: \<open>U n rq\<close> is the outcome of the GET \<open>rq\<close> when \<open>n\<close>
  GETs have been issued before it.
\<close>

type_synonym upstream = "nat \<Rightarrow> request \<Rightarrow> get_outcome"

text \<open>
  The fields of \<open>KalshiHTTP\<close>, and two histories kept for stating properties: \<open>gets\<close>, every
  HTTP GET issued, and \<open>calls\<close>, every invocation of \<open>resilient_get\<close>, both oldest first.
\<close>

record kalshi =
  hosts :: "string list"
  host :: "string option"
  min_ts_supported :: "bool option"
  gets :: "request list"
  calls :: "(string \<times> params) list"

definition FALLBACK :: string where
  "FALLBACK = ''https://api.elections.kalshi.com/trade-api/v2''"

text \<open>\<open>KalshiHTTP.__init__\<close>; the argument is the environment variable KALSHI_BASE_URL.\<close>

definition kalshi_init :: "string option \<Rightarrow> kalshi" where
  "kalshi_init base_url =
     (let PRIMARY = (case base_url of Some u \<Rightarrow> u
                     | None \<Rightarrow> ''https://api.kalshi.com/trade-api/v2'')
      in \<lparr>hosts = (if base_url \<noteq> None \<and> base_url \<noteq> Some [] then [PRIMARY]
                   else [PRIMARY, FALLBACK]),
          host = None, min_ts_supported = None, gets = [], calls = []\<rparr>)"

definition client_get :: "upstream \<Rightarrow> kalshi \<Rightarrow> string \<Rightarrow> params \<Rightarrow> get_outcome \<times> kalshi" where
  "client_get U k url ps =
     (let rq = \<lparr>rq_url = url, rq_params = ps\<rparr>
      in (U (length (gets k)) rq, k\<lparr>gets := gets k @ [rq]\<rparr>))"

text \<open>The loop of \<open>pick_host\<close> over the hosts still to probe.\<close>

fun pick_host_from :: "upstream \<Rightarrow> kalshi \<Rightarrow> string list \<Rightarrow> kalshi" where
  "pick_host_from U k [] = k\<lparr>host := Some FALLBACK\<rparr>"
| "pick_host_from U k (h # hs) =
     (case client_get U k (h @ ''/markets'') [(''limit'', PInt 1), (''status'', PStr ''open'')] of
        (Resp c b, k1) \<Rightarrow> if c = 200 then k1\<lparr>host := Some h\<rparr> else pick_host_from U k1 hs
      | (GetRaised e, k1) \<Rightarrow> pick_host_from U k1 hs)"

definition pick_host :: "upstream \<Rightarrow> kalshi \<Rightarrow> kalshi" where
  "pick_host U k = pick_host_from U k (hosts k)"

text \<open>\<open>r.raise_for_status()\<close> (httpx): raises HTTPStatusError unless the status is 2xx.\<close>

definition raise_for_status :: "nat \<Rightarrow> py_exn option" where
  "raise_for_status c = (if 200 \<le> c \<and> c < 300 then None else Some (HTTPStatusError c))"

text \<open>
  The \<open>for h in order\<close> loop of \<open>resilient_get\<close>, with \<open>last_err\<close>, and the \<open>raise\<close> after it.
\<close>

text \<open>
  The exceptions caught by \<open>except (httpx.ConnectError, httpx.ReadTimeout, httpx.NetworkError)\<close>:
  ReadTimeout, and NetworkError with its subclasses ConnectError, ReadError, WriteError and
  CloseError. The other three timeouts are not among them.
\<close>

fun failover_exn :: "transport_exn \<Rightarrow> bool" where
  "failover_exn ConnectError = True"
| "failover_exn ReadError = True"
| "failover_exn WriteError = True"
| "failover_exn CloseError = True"
| "failover_exn ReadTimeout = True"
| "failover_exn ConnectTimeout = False"
| "failover_exn WriteTimeout = False"
| "failover_exn PoolTimeout = False"
| "failover_exn OtherExc = False"

fun try_hosts ::
  "upstream \<Rightarrow> string \<Rightarrow> params \<Rightarrow> kalshi \<Rightarrow> string list \<Rightarrow> py_exn option \<Rightarrow> (py_exn + body) \<times> kalshi"
  where
  "try_hosts U path ps k [] last_err =
     (Inl (case last_err of Some e \<Rightarrow> e | None \<Rightarrow> AllHostsFailed), k)"
| "try_hosts U path ps k (h # hs) last_err =
     (case client_get U k (h @ path) ps of
        (GetRaised x, k1) \<Rightarrow>
          if failover_exn x then try_hosts U path ps k1 hs (Some (TransportError x))
          else (Inl (TransportError x), k1)
      | (Resp c b, k1) \<Rightarrow>
          if c \<ge> 500 then try_hosts U path ps k1 hs (Some (ServerError c))
          else (case raise_for_status c of
                  Some e \<Rightarrow> (Inl e, k1)
                | None \<Rightarrow>
                    (let k2 = (if Some h \<noteq> host k1 then k1\<lparr>host := Some h\<rparr> else k1)
                     in case b of Some d \<Rightarrow> (Inr d, k2) | None \<Rightarrow> (Inl JSONDecodeError, k2))))"

definition host_order :: "kalshi \<Rightarrow> string list" where
  "host_order k =
     (case host k of
        Some p \<Rightarrow> p # filter (\<lambda>h. h \<noteq> p) (hosts k)
      | None \<Rightarrow> [])"

text \<open>The head of \<open>resilient_get\<close>: \<open>if self.host is None: await self.pick_host()\<close>.\<close>

definition ensure_host :: "upstream \<Rightarrow> kalshi \<Rightarrow> kalshi" where
  "ensure_host U k = (if host k = None then pick_host U k else k)"

definition resilient_get :: "upstream \<Rightarrow> kalshi \<Rightarrow> string \<Rightarrow> params \<Rightarrow> (py_exn + body) \<times> kalshi" where
  "resilient_get U k path ps =
     (let k1 = ensure_host U (k\<lparr>calls := calls k @ [(path, ps)]\<rparr>)
      in try_hosts U path ps k1 (host_order k1) None)"




text \<open>\<open>data.get("trades") or data.get("data") or data.get("results") or []\<close>\<close>

definition trades_of :: "body \<Rightarrow> raw_trade list" where
  "trades_of d =
     (case por (\<lambda>l. l \<noteq> []) (por (\<lambda>l. l \<noteq> []) (b_trades d) (b_data d)) (b_results d) of
        Some l \<Rightarrow> l
      | None \<Rightarrow> [])"

text \<open>The capability probe at the head of \<open>fetch_trades_since\<close>; \<open>Some e\<close> is a re-raised error.\<close>

definition probe_min_ts :: "upstream \<Rightarrow> kalshi \<Rightarrow> int \<Rightarrow> py_exn option \<times> kalshi" where
  "probe_min_ts U k min_ts_ms =
     (if min_ts_supported k = None then
        (case resilient_get U k ''/markets/trades''
                [(''limit'', PInt 1), (''min_ts'', PInt min_ts_ms)] of
           (Inr d, k1) \<Rightarrow> (None, k1\<lparr>min_ts_supported := Some True\<rparr>)
         | (Inl (HTTPStatusError c), k1) \<Rightarrow>
             if c = 400 then (None, k1\<lparr>min_ts_supported := Some False\<rparr>)
             else (Some (HTTPStatusError c), k1)
         | (Inl e, k1) \<Rightarrow> (None, k1\<lparr>min_ts_supported := Some False\<rparr>))
      else (None, k))"

definition fetch_trades_since ::
  "upstream \<Rightarrow> kalshi \<Rightarrow> int \<Rightarrow> int \<Rightarrow> (py_exn + raw_trade list) \<times> kalshi" where
  "fetch_trades_since U k min_ts_ms limit =
     (case probe_min_ts U k min_ts_ms of
        (Some e, k1) \<Rightarrow> (Inl e, k1)
      | (None, k1) \<Rightarrow>
          (let ps = [(''limit'', PInt limit)]
                    @ (if min_ts_supported k1 = Some True then [(''min_ts'', PInt min_ts_ms)]
                       else [])
           in case resilient_get U k1 ''/markets/trades'' ps of
                (Inr d, k2) \<Rightarrow> (Inr (trades_of d), k2)
              | (Inl (HTTPStatusError c), k2) \<Rightarrow>
                  if c = 400 \<and> min_ts_supported k2 = Some True then
                    (case resilient_get U (k2\<lparr>min_ts_supported := Some False\<rparr>)
                            ''/markets/trades'' [(''limit'', PInt limit)] of
                       (Inr d, k3) \<Rightarrow> (Inr (trades_of d), k3)
                     | (Inl e, k3) \<Rightarrow> (Inl e, k3))
                  else (Inl (HTTPStatusError c), k2)
              | (Inl e, k2) \<Rightarrow> (Inl e, k2)))"

text \<open>
  The life of the fetcher as a sequence of calls on it: \<open>fetch_trades_since\<close> from the
  ingestion loop, and \<open>resilient_get\<close> from the title lookup and the health command.
\<close>

datatype kalshi_call = FetchTrades int int | OtherGet string params

fun run_calls :: "upstream \<Rightarrow> kalshi \<Rightarrow> kalshi_call list \<Rightarrow> kalshi" where
  "run_calls U k [] = k"
| "run_calls U k (FetchTrades m l # cs) = run_calls U (snd (fetch_trades_since U k m l)) cs"
| "run_calls U k (OtherGet path ps # cs) = run_calls U (snd (resilient_get U k path ps)) cs"

section \<open>The ingestion loop\<close>

text \<open>
  What \<open>bot.send_message\<close> does inside \<open>notify_user\<close>: it returns, raises
  TelegramNetworkError, or raises an exception of another class.
\<close>

datatype send_outcome = Sent | TelegramNetworkError | SendRaised

text \<open>
  One call of \<open>notify_user\<close>: the recipient, the arguments \<open>fmt_alert_text\<close> renders (the
  signal line is rendered here; of the number and time formatting only the exception of
  \<open>local_time_str\<close> is modelled) and the link of the button.
\<close>

record alert =
  al_uid :: int
  al_title :: string
  al_ticker :: string
  al_side :: string
  al_notional :: rat
  al_count :: int
  al_yes_cents :: int
  al_ts_ms :: int
  al_signal :: string
  al_tz :: string
  al_url :: string

text \<open>
  The outside world during one poll cycle, by the position \<open>i\<close> of the trade in the batch
  and the position \<open>j\<close> of the subscriber among the active ones: the clock read by
  \<open>parse_ts_to_ms\<close> and by \<open>ticker_recent_counts_24h\<close>, the result of the title lookup
  (an external collaborator, which catches every exception; its calls of \<open>resilient_get\<close>
  are counted with the next tick), and what the transport does with the message.
\<close>

record env =
  now_parse :: "nat \<Rightarrow> int"
  now_counts :: "nat \<Rightarrow> int"
  title_of :: "nat \<Rightarrow> nat \<Rightarrow> string option"
  send :: "nat \<Rightarrow> nat \<Rightarrow> send_outcome"

definition flag_str :: "string list \<Rightarrow> string" where
  "flag_str flags = (if flags \<noteq> [] then join '' + '' flags else ''Whale'')"

definition fmt_alert_text ::
  "config \<Rightarrow> int \<Rightarrow> string \<Rightarrow> string \<Rightarrow> string \<Rightarrow> rat \<Rightarrow> int \<Rightarrow> int \<Rightarrow> int \<Rightarrow> string list \<Rightarrow>
   string \<Rightarrow> py_exn + alert"
  where
  "fmt_alert_text cfg uid title ticker side notional cnt yes_cents ts_ms flags tz_str =
     (if time_ok cfg ts_ms tz_str then
        Inr \<lparr>al_uid = uid, al_title = title, al_ticker = ticker, al_side = side,
             al_notional = notional, al_count = cnt, al_yes_cents = yes_cents,
             al_ts_ms = ts_ms, al_signal = flag_str flags, al_tz = tz_str,
             al_url = kalshi_market_url_from_ticker ticker\<rparr>
      else Inl TimeError)"

text \<open>\<open>notify_user\<close>: only TelegramNetworkError is caught (and logged).\<close>

fun notify_user :: "send_outcome \<Rightarrow> py_exn option" where
  "notify_user Sent = None"
| "notify_user TelegramNetworkError = None"
| "notify_user SendRaised = Some SendError"

text \<open>
  Lines 408 to 430 of \<open>ingest_loop\<close>, for one trade of positive notional: the three checks
  around the two writes. The result is the exception that left the block, if any, with the
  store as the committed writes left it, and the value of \<open>flags\<close> at that point.
\<close>

definition ingest_detect ::
  "config \<Rightarrow> int \<Rightarrow> db \<Rightarrow> string \<times> int \<times> string \<times> string \<times> int \<times> int \<Rightarrow> rat \<Rightarrow>
   (py_exn option \<times> db) \<times> string list"
  where
  "ingest_detect cfg now d f notional =
     (case f of (trade_id, ts_ms, ticker, side, cnt, yes_cents) \<Rightarrow>
        (let last_tick_ts = last_trade_ts_for_ticker d ticker;
             flags1 = (if last_tick_ts \<noteq> 0 \<and> ts_ms - last_tick_ts \<ge> 2 * 3600 * 1000
                       then [''Silent-breaker''] else [])
         in case update_last_trade_ts d ticker ts_ms of
              Inl x \<Rightarrow> ((Some x, d), flags1)
            | Inr d1 \<Rightarrow>
                (case ticker_recent_counts_24h now d1 ticker of
                   Inl x \<Rightarrow> ((Some x, d1), flags1)
                 | Inr counts24 \<Rightarrow>
                     (let med = median counts24;
                          flags2 = flags1 @ (if med > 0 \<and> of_int cnt \<ge> 5 * med
                                             then [''Unusual size''] else [])
                      in case store_print d1 trade_id ts_ms ticker side cnt yes_cents notional
                                flags2 of
                           Inl x \<Rightarrow> ((Some x, d1), flags2)
                         | Inr d2 \<Rightarrow>
                             (let since10 = ts_ms - 10 * 60 * 1000
                              in case count_recent_big d2 ticker since10 (default_thresh cfg) of
                                   Inl x \<Rightarrow> ((Some x, d2), flags2)
                                 | Inr n10 \<Rightarrow>
                                     ((None, d2),
                                      flags2 @ (if n10 \<ge> 3 then [''Accumulation'']
                                                else [])))))))"

text \<open>The values the \<open>flags\<close> column can take when a row is written by the loop.\<close>

definition stored_flags_ok :: "string \<Rightarrow> bool" where
  "stored_flags_ok s =
     (s \<in> set [[], ''Silent-breaker'', ''Unusual size'', ''Silent-breaker,Unusual size''])"

text \<open>
  Lines 432 to 440: the loop over the active subscribers \<open>(uid, thr, topic, tz)\<close>, each with
  its position. The text is formatted before \<open>notify_user\<close> is called. It returns the
  exception that left it, if any, and the calls of \<open>notify_user\<close> made, each with what
  the transport did.
\<close>

fun ingest_notify ::
  "config \<Rightarrow> env \<Rightarrow> nat \<Rightarrow> string \<times> int \<times> string \<times> string \<times> int \<times> int \<Rightarrow> rat \<Rightarrow>
   string list \<Rightarrow> (nat \<times> int \<times> rat \<times> string \<times> string) list \<Rightarrow>
   (alert \<times> send_outcome) list \<Rightarrow> py_exn option \<times> (alert \<times> send_outcome) list" where
  "ingest_notify cfg e i f notional flags [] acc = (None, acc)"
| "ingest_notify cfg e i f notional flags ((j, uid, thr, topic, tz) # rest) acc =
     (case f of (trade_id, ts_ms, ticker, side, cnt, yes_cents) \<Rightarrow>
        if notional \<ge> thr \<and> topic_match topic ticker then
          (let title = clean_title (title_of e i j) ticker
           in case fmt_alert_text cfg uid title ticker side notional cnt yes_cents ts_ms
                     flags tz of
                Inl x \<Rightarrow> (Some x, acc)
              | Inr a \<Rightarrow>
                  (let r = send e i j
                   in case notify_user r of
                        Some x \<Rightarrow> (Some x, acc @ [(a, r)])
                      | None \<Rightarrow>
                          ingest_notify cfg e i f notional flags rest (acc @ [(a, r)])))
        else ingest_notify cfg e i f notional flags rest acc)"

record proc =
  p_db :: db
  p_sent :: "(alert \<times> send_outcome) list"
  p_max_seen :: int

text \<open>
  Lines 402 to 443: the loop over the batch, each trade with its position. An exception
  leaves the loop with the store as the committed writes left it.
\<close>

fun ingest_trades ::
  "config \<Rightarrow> env \<Rightarrow> (nat \<times> int \<times> rat \<times> string \<times> string) list \<Rightarrow> (nat \<times> raw_trade) list \<Rightarrow>
   proc \<Rightarrow> py_exn option \<times> proc" where
  "ingest_trades cfg e active [] p = (None, p)"
| "ingest_trades cfg e active ((i, tr) # trs) p =
     (let f = trade_core_fields cfg (now_parse e i) tr;
          notional = trade_notional_usd tr
      in if notional \<le> 0 then ingest_trades cfg e active trs p
         else
           (case ingest_detect cfg (now_counts e i) (p_db p) f notional of
              ((Some x, d2), flags) \<Rightarrow> (Some x, p\<lparr>p_db := d2\<rparr>)
            | ((None, d2), flags) \<Rightarrow>
                (case ingest_notify cfg e i f notional flags active (p_sent p) of
                   (Some x, sent') \<Rightarrow> (Some x, p\<lparr>p_db := d2, p_sent := sent'\<rparr>)
                 | (None, sent') \<Rightarrow>
                     ingest_trades cfg e active trs
                       (p\<lparr>p_db := d2, p_sent := sent',
                          p_max_seen := (if fst (snd f) > p_max_seen p then fst (snd f)
                                         else p_max_seen p)\<rparr>))))"

text \<open>
  The state of the running task: the fetcher, the store, the variable \<open>last_ts\<close>, every
  call of \<open>notify_user\<close> made so far, and the exception that ended the task, if any.
\<close>

record loop_state =
  ls_kalshi :: kalshi
  ls_db :: db
  ls_last_ts :: int
  ls_sent :: "(alert \<times> send_outcome) list"
  ls_raised :: "py_exn option"

definition active_subs :: "sub_row list \<Rightarrow> (int \<times> rat \<times> string \<times> string) list" where
  "active_subs sbs =
     map (\<lambda>s. (sb_user_id s, sb_thresh_usd s, sb_topic s, sb_tz s))
       (filter (\<lambda>s. sb_alerts_on s = 1) sbs)"


text \<open>One iteration of \<open>while True\<close> (lines 385 to 450), the sleep left out.\<close>

definition ingest_cycle :: "config \<Rightarrow> upstream \<Rightarrow> env \<Rightarrow> loop_state \<Rightarrow> loop_state" where
  "ingest_cycle cfg U e st =
     (case fetch_trades_since U (ls_kalshi st) (ls_last_ts st) 1000 of
        (Inl err, k1) \<Rightarrow> st\<lparr>ls_kalshi := k1\<rparr>
      | (Inr trades, k1) \<Rightarrow>
          if trades = [] then st\<lparr>ls_kalshi := k1\<rparr>
          else
            (case ingest_trades cfg e (enumerate 0 (active_subs (load_subscribers (ls_db st))))
                    (enumerate 0 trades)
                    \<lparr>p_db = ls_db st, p_sent = [], p_max_seen = ls_last_ts st\<rparr> of
               (Some x, p) \<Rightarrow>
                 st\<lparr>ls_kalshi := k1, ls_db := p_db p, ls_sent := ls_sent st @ p_sent p,
                    ls_raised := Some x\<rparr>
             | (None, p) \<Rightarrow>
                 if p_max_seen p > ls_last_ts st then
                   st\<lparr>ls_kalshi := k1,
                      ls_db := db_set (p_db p) ''last_ts_ms'' (py_str (p_max_seen p)),
                      ls_last_ts := p_max_seen p, ls_sent := ls_sent st @ p_sent p\<rparr>
                 else st\<lparr>ls_kalshi := k1, ls_db := p_db p, ls_sent := ls_sent st @ p_sent p\<rparr>))"

text \<open>
  Between two fetches the fetcher and the \<open>subs\<close> table change under the loop: the command
  handlers rewrite the table, and the title lookups, those of the iteration before among
  them, and the health checks call \<open>resilient_get\<close>. A tick is what they did since the
  last fetch, and the world of the iteration that follows.
\<close>

record tick =
  tk_subs :: "sub_row list"
  tk_gets :: "(string \<times> params) list"
  tk_env :: env

definition other_gets :: "upstream \<Rightarrow> kalshi \<Rightarrow> (string \<times> params) list \<Rightarrow> kalshi" where
  "other_gets U k reqs = foldl (\<lambda>k' (path, ps). snd (resilient_get U k' path ps)) k reqs"

text \<open>
  The \<open>while True\<close> loop over a finite run of ticks. An exception that leaves an
  iteration ends the task: nothing after it runs.
\<close>

fun ingest_loop :: "config \<Rightarrow> upstream \<Rightarrow> tick list \<Rightarrow> loop_state \<Rightarrow> loop_state" where
  "ingest_loop cfg U [] st = st"
| "ingest_loop cfg U (t # ts) st =
     (if ls_raised st \<noteq> None then st
      else ingest_loop cfg U ts
             (ingest_cycle cfg U (tk_env t)
                (st\<lparr>ls_kalshi := other_gets U (ls_kalshi st) (tk_gets t),
                    ls_db := (ls_db st)\<lparr>subs := tk_subs t\<rparr>\<rparr>)))"

section \<open>Example inputs\<close>

text \<open>
  A trade object with the keys \<open>id\<close>, \<open>ticker\<close>, \<open>created_time\<close> (an integer), \<open>side\<close>,
  \<open>count\<close> and \<open>yes_price\<close>; a world with a fixed clock, no titles and a transport that
  delivers; a subscriber with alerts on and topic \<open>all\<close>; an empty store.
\<close>

definition ex_trade :: "string \<Rightarrow> string \<Rightarrow> int \<Rightarrow> int \<Rightarrow> rat \<Rightarrow> raw_trade" where
  "ex_trade tid ticker ts cnt cents =
     \<lparr>t_id = Some tid, t_trade_id = None, t_ticker = Some ticker, t_market = None,
      t_created_time = Some (TInt ts), t_ts = None, t_side = Some ''yes'', t_direction = None,
      t_count = Some cnt, t_size = None, t_yes_price = Some cents, t_price = None,
      t_yes_price_dollars = None\<rparr>"

definition ex_env :: env where
  "ex_env = \<lparr>now_parse = (\<lambda>i. 1700000000000), now_counts = (\<lambda>i. 1700000000000),
             title_of = (\<lambda>i j. None), send = (\<lambda>i j. Sent)\<rparr>"

definition ex_cfg :: config where
  "ex_cfg = \<lparr>default_thresh = 5000, iso_ms = (\<lambda>s. None), time_ok = (\<lambda>ts tz. True)\<rparr>"

definition ex_sub :: "int \<Rightarrow> rat \<Rightarrow> sub_row" where
  "ex_sub uid thr =
     \<lparr>sb_user_id = uid, sb_alerts_on = 1, sb_thresh_usd = thr, sb_topic = ''all'',
      sb_tz = ''UTC''\<rparr>"

definition ex_db :: "sub_row list \<Rightarrow> db" where
  "ex_db sbs = \<lparr>subs = sbs, prints = [], stats = Map.empty, meta = Map.empty\<rparr>"

definition ex_proc :: "int \<Rightarrow> proc" where
  "ex_proc w = \<lparr>p_db = ex_db [], p_sent = [], p_max_seen = w\<rparr>"

text \<open>
  A fetcher pinned to host \<open>A\<close> with \<open>B\<close> as the other host, in a given capability
  state; an upstream that answers every GET with status 200 and the given trades under the
  key \<open>trades\<close>; a loop state over them with a given watermark and subscriber table.
\<close>

definition ex_kalshi :: "bool option \<Rightarrow> kalshi" where
  "ex_kalshi cap =
     \<lparr>hosts = [''A'', ''B''], host = Some ''A'', min_ts_supported = cap, gets = [], calls = []\<rparr>"

definition ex_body :: "raw_trade list \<Rightarrow> body" where
  "ex_body trs = \<lparr>b_trades = Some trs, b_data = None, b_results = None\<rparr>"

definition ex_upstream :: "raw_trade list \<Rightarrow> upstream" where
  "ex_upstream trs = (\<lambda>n rq. Resp 200 (Some (ex_body trs)))"

definition ex_state :: "bool option \<Rightarrow> int \<Rightarrow> sub_row list \<Rightarrow> loop_state" where
  "ex_state cap w sbs =
     \<lparr>ls_kalshi = ex_kalshi cap, ls_db = ex_db sbs, ls_last_ts = w, ls_sent = [],
      ls_raised = None\<rparr>"

definition ex_tick :: "sub_row list \<Rightarrow> tick" where
  "ex_tick sbs = \<lparr>tk_subs = sbs, tk_gets = [], tk_env = ex_env\<rparr>"

definition ex_row :: "string \<Rightarrow> int \<Rightarrow> print_row" where
  "ex_row tid ts =
     \<lparr>pr_trade_id = tid, pr_ts_ms = ts, pr_ticker = ''X'', pr_side = ''YES'', pr_count = 10000,
      pr_yes_cents = 55, pr_notional_usd = 5500, pr_flags = []\<rparr>"

definition ex_alert :: "int \<Rightarrow> int \<Rightarrow> string \<Rightarrow> alert" where
  "ex_alert uid ts signal =
     \<lparr>al_uid = uid, al_title = ''X'', al_ticker = ''X'', al_side = ''YES'', al_notional = 5500,
      al_count = 10000, al_yes_cents = 55, al_ts_ms = ts, al_signal = signal, al_tz = ''UTC'',
      al_url = ''https://kalshi.com/?search=X''\<rparr>"

definition ex_three :: "raw_trade list" where
  "ex_three = [ex_trade ''T1'' ''X'' 1700000001000 10000 55,
               ex_trade ''T2'' ''X'' 1700000002000 10000 55,
               ex_trade ''T3'' ''X'' 1700000003000 10000 55]"



definition ex_reject :: upstream where
  "ex_reject =
     (\<lambda>n rq. if ''min_ts'' \<in> set (map fst (rq_params rq)) then Resp 400 None
             else Resp 200 (Some (ex_body ex_three)))"

section \<open>Notions used in the statements\<close>









section \<open>Idempotent storage\<close>




lemma store_print_raises:
  "store_print d tid ts tk sd c y n fl = Inl x \<Longrightarrow> x = OverflowError"
  by (simp add: store_print_def insert_print_def split: if_splits)




section \<open>Per-instrument state\<close>








section \<open>Decimal strings\<close>

lemma digit_val_char_of: "(d::nat) < 10 \<Longrightarrow> digit_val (char_of (48 + d)) = d"
  by (simp add: digit_val_def)

lemma is_digit_char_of: "(d::nat) < 10 \<Longrightarrow> is_digit (char_of (48 + d))"
  by (simp add: is_digit_def)

lemma str_of_nat_digits: "str_of_nat n \<noteq> [] \<and> list_all is_digit (str_of_nat n)"
proof (induction n rule: str_of_nat.induct)
  case (1 n)
  show ?case
  proof (cases "n < 10")
    case True
    then show ?thesis by (subst (1 2) str_of_nat.simps) (simp add: is_digit_char_of)
  next
    case False
    with 1 show ?thesis by (subst (1 2) str_of_nat.simps) (simp add: is_digit_char_of)
  qed
qed

lemma str_of_nat_value: "foldl (\<lambda>a c. 10 * a + digit_val c) 0 (str_of_nat n) = n"
proof (induction n rule: str_of_nat.induct)
  case (1 n)
  show ?case
  proof (cases "n < 10")
    case True
    then show ?thesis by (subst str_of_nat.simps) (simp add: digit_val_char_of)
  next
    case False
    with 1 show ?thesis by (subst str_of_nat.simps) (simp add: digit_val_char_of)
  qed
qed

lemma py_str_roundtrip: "0 \<le> i \<Longrightarrow> isdigit (py_str i) \<and> int_of_digits (py_str i) = i"
  by (simp add: py_str_def isdigit_def int_of_digits_def str_of_nat_digits str_of_nat_value)



section \<open>The example inputs, evaluated\<close>

lemma upper_yes: "upper ''yes'' = ''YES''"
  by (simp add: upper_def upper_char_def char_of_eq_iff)

lemma upper_Nil: "upper [] = []"
  by (simp add: upper_def)

lemma upper_X: "upper ''X'' = ''X''"
  by (simp add: upper_def upper_char_def char_of_eq_iff)

lemma parse_ts_epoch_ms:
  "10000000000 < ts \<Longrightarrow> parse_ts_to_ms cfg now (Some (TInt ts)) = ts"
  using py_str_roundtrip [of ts] by (simp add: parse_ts_to_ms_def Let_def)

lemma ex_trade_fields:
  "10000000000 < ts \<Longrightarrow> tid \<noteq> [] \<Longrightarrow>
   trade_core_fields cfg now (ex_trade tid tk ts cnt cents)
     = (tid, ts, upper tk, ''YES'', cnt, py_trunc cents)"
  by (simp add: trade_core_fields_def ex_trade_def Let_def por_def truthy_str_def
      trade_count_def parse_ts_epoch_ms upper_yes upper_Nil)

lemma ex_trade_notional:
  "trade_notional_usd (ex_trade tid tk ts cnt cents) = of_int cnt * (cents / 100)"
  by (simp add: trade_notional_usd_def ex_trade_def trade_count_def por_def)

lemma py_trunc_int [simp]: "py_trunc (of_int i) = i"
  by (simp add: py_trunc_def)

lemma py_trunc_num [simp]: "py_trunc (numeral k) = numeral k"
  using py_trunc_int [of "numeral k"] by simp

lemmas store_defs = ingest_detect_def store_print_def insert_print_def
  ticker_recent_counts_24h_def median_def count_recent_big_def update_last_trade_ts_def
  last_trade_ts_for_ticker_def int64_def

text \<open>With every integer it binds in the 64-bit range, \<open>ingest_detect\<close> does not raise.\<close>

lemma ingest_detect_returns:
  assumes "int64 ts" "int64 c" "int64 y" "int64 (now - 24 * 3600 * 1000)"
    "int64 (ts - 10 * 60 * 1000)"
  shows "fst (fst (ingest_detect cfg now d (tid, ts, tk, sd, c, y) n)) = None"
proof -
  have r: "\<And>d' fl x. (store_print d' tid ts tk sd c y n fl = Inl x) = False"
    using assms(1-3) by (simp add: store_print_def insert_print_def)
  show ?thesis
    using assms(1,4,5)
    by (simp add: ingest_detect_def Let_def update_last_trade_ts_def r
        ticker_recent_counts_24h_def count_recent_big_def split: sum.splits)
qed

lemmas ex_defs = ex_cfg_def ex_env_def ex_db_def ex_proc_def ex_sub_def

section \<open>The stored last-trade timestamp\<close>




section \<open>The Silent-breaker check\<close>

text \<open>
  C9, as the code has it. \<open>d\<close> is the store before the trade's own call of
  \<open>update_last_trade_ts\<close>, \<open>prior\<close> the timestamp it holds for the instrument, and the
  second component of \<open>ingest_detect\<close> the trade's list of tags when the checks are
  left, normally or by an exception. When \<open>prior\<close> is not 0, the trade is tagged
  Silent-breaker if and only if its timestamp minus \<open>prior\<close> is at least 7200000 ms.
\<close>

theorem silent_breaker_iff:
  "stats d tk = Some prior \<Longrightarrow> prior \<noteq> 0 \<Longrightarrow>
   (''Silent-breaker'' \<in> set (snd (ingest_detect cfg now d (tid, ts, tk, sd, c, y) n)))
     = (ts - prior \<ge> 7200000)"
  by (simp add: ingest_detect_def Let_def last_trade_ts_for_ticker_def split: sum.splits)

theorem silent_breaker_iff_witness:
  "stats ((ex_db [])\<lparr>stats := [''X'' \<mapsto> 1700000000000]\<rparr>) ''X'' = Some 1700000000000
   \<and> ''Silent-breaker'' \<in> set (snd (ingest_detect ex_cfg 1700007200000
          ((ex_db [])\<lparr>stats := [''X'' \<mapsto> 1700000000000]\<rparr>)
          (''T2'', 1700007200000, ''X'', ''YES'', 10, 50) 5))
   \<and> ''Silent-breaker'' \<notin> set (snd (ingest_detect ex_cfg 1700007199999
          ((ex_db [])\<lparr>stats := [''X'' \<mapsto> 1700000000000]\<rparr>)
          (''T2'', 1700007199999, ''X'', ''YES'', 10, 50) 5))"
  using silent_breaker_iff [of "(ex_db [])\<lparr>stats := [''X'' \<mapsto> 1700000000000]\<rparr>" "''X''"
      1700000000000 ex_cfg 1700007200000 "''T2''" 1700007200000 "''YES''" 10 50 5]
    silent_breaker_iff [of "(ex_db [])\<lparr>stats := [''X'' \<mapsto> 1700000000000]\<rparr>" "''X''"
      1700000000000 ex_cfg 1700007199999 "''T2''" 1700007199999 "''YES''" 10 50 5]
  by (simp add: ex_db_def)

lemma parse_ts_zero: "parse_ts_to_ms cfg now (Some (TStr ''0'')) = 0"
  by (simp add: parse_ts_to_ms_def isdigit_def is_digit_def int_of_digits_def digit_val_def)

lemma ex_trade_fields_zero:
  "tid \<noteq> [] \<Longrightarrow>
   trade_core_fields cfg now ((ex_trade tid tk ts cnt cents)\<lparr>t_created_time := Some (TStr ''0'')\<rparr>)
     = (tid, 0, upper tk, ''YES'', cnt, py_trunc cents)"
  by (simp add: trade_core_fields_def ex_trade_def Let_def por_def truthy_str_def
      trade_count_def parse_ts_zero upper_yes upper_Nil)

lemma ex_trade_notional_upd [simp]:
  "trade_notional_usd ((ex_trade tid tk ts cnt cents)\<lparr>t_created_time := x\<rparr>)
     = of_int cnt * (cents / 100)"
  by (simp add: trade_notional_usd_def ex_trade_def trade_count_def por_def)

text \<open>
  C9 as stated fails where the recorded timestamp is 0, which the check reads as no
  record: a trade stamped \<open>"0"\<close> leaves the row \<open>X \<mapsto> 0\<close>, and the next trade of \<open>X\<close>,
  far more than two hours later, gets no tag.
\<close>

theorem silent_breaker_zero_prior:
  "stats (p_db (snd (ingest_trades ex_cfg ex_env []
       [(0, (ex_trade ''T1'' ''X'' 0 10 50)\<lparr>t_created_time := Some (TStr ''0'')\<rparr>)]
       (ex_proc 0)))) ''X'' = Some 0
   \<and> (7200000::int) \<le> 1700000000000 - 0
   \<and> snd (ingest_detect ex_cfg 1700000000000
        (p_db (snd (ingest_trades ex_cfg ex_env []
           [(0, (ex_trade ''T1'' ''X'' 0 10 50)\<lparr>t_created_time := Some (TStr ''0'')\<rparr>)]
           (ex_proc 0))))
        (''T2'', 1700000000000, ''X'', ''YES'', 10, 50) 5) = []"
  by (simp add: ex_trade_fields_zero upper_X store_defs ex_defs Let_def)

section \<open>Zero-notional trades\<close>


lemma trades_of_ex [simp]: "trs \<noteq> [] \<Longrightarrow> trades_of (ex_body trs) = trs"
  by (simp add: trades_of_def ex_body_def por_def)

lemmas http_defs = fetch_trades_since_def probe_min_ts_def resilient_get_def host_order_def
  client_get_def raise_for_status_def pick_host_def ensure_host_def

lemma fetch_ex_supported:
  "trs \<noteq> [] \<Longrightarrow>
   fst (fetch_trades_since (ex_upstream trs) (ex_kalshi (Some True)) w 1000) = Inr trs"
  by (simp add: http_defs ex_kalshi_def ex_upstream_def Let_def)




lemma ingest_cycle_fetched:
  "fst (fetch_trades_since U (ls_kalshi st) (ls_last_ts st) 1000) = Inr trades \<Longrightarrow>
   trades \<noteq> [] \<Longrightarrow>
   ingest_trades cfg e (enumerate 0 (active_subs (load_subscribers (ls_db st))))
     (enumerate 0 trades) \<lparr>p_db = ls_db st, p_sent = [], p_max_seen = ls_last_ts st\<rparr>
     = (None, p) \<Longrightarrow>
   ls_last_ts (ingest_cycle cfg U e st) = max (ls_last_ts st) (p_max_seen p)
   \<and> prints (ls_db (ingest_cycle cfg U e st)) = prints (p_db p)
   \<and> ls_sent (ingest_cycle cfg U e st) = ls_sent st @ p_sent p"
  by (cases "fetch_trades_since U (ls_kalshi st) (ls_last_ts st) 1000")
     (simp add: ingest_cycle_def db_set_def)


section \<open>The flags column\<close>

lemma stored_flags_no_accumulation:
  "stored_flags_ok s \<Longrightarrow> \<not> contains ''Accumulation'' s"
  by (auto simp: stored_flags_ok_def)

lemma store_print_prints:
  "store_print d tid ts tk sd c y n fl = Inr d' \<Longrightarrow>
   prints d' = prints d
   \<or> (\<exists>r. prints d' = prints d @ [r] \<and> pr_flags r = join '','' fl)"
  by (auto simp: store_print_def insert_print_def split: if_splits)

lemma ingest_detect_prints:
  "prints (snd (fst (ingest_detect cfg now d f n))) = prints d
   \<or> (\<exists>r. prints (snd (fst (ingest_detect cfg now d f n))) = prints d @ [r]
            \<and> stored_flags_ok (pr_flags r))"
proof -
  obtain tid ts tk sd c y where f: "f = (tid, ts, tk, sd, c, y)" by (cases f)
  show ?thesis
  proof (cases "update_last_trade_ts d tk ts")
    case (Inl x)
    then show ?thesis by (simp add: f ingest_detect_def Let_def)
  next
    case u: (Inr d1)
    then have p1: "prints d1 = prints d"
      by (auto simp: update_last_trade_ts_def split: if_splits)
    show ?thesis
    proof (cases "ticker_recent_counts_24h now d1 tk")
      case (Inl x)
      with u p1 show ?thesis by (simp add: f ingest_detect_def Let_def)
    next
      case cn: (Inr counts24)
      let ?fl = "(if last_trade_ts_for_ticker d tk \<noteq> 0
                     \<and> ts - last_trade_ts_for_ticker d tk \<ge> 2 * 3600 * 1000
                  then [''Silent-breaker''] else [])
                 @ (if median counts24 > 0 \<and> of_int c \<ge> 5 * median counts24
                    then [''Unusual size''] else [])"
      have ok: "stored_flags_ok (join '','' ?fl)"
        by (simp add: stored_flags_ok_def)
      show ?thesis
      proof (cases "store_print d1 tid ts tk sd c y n ?fl")
        case (Inl x)
        with u cn p1 show ?thesis by (simp add: f ingest_detect_def Let_def)
      next
        case st: (Inr d2)
        have p2: "prints d2 = prints d
                  \<or> (\<exists>r. prints d2 = prints d @ [r] \<and> stored_flags_ok (pr_flags r))"
          using store_print_prints [OF st] ok p1 by auto
        show ?thesis
        proof (cases "count_recent_big d2 tk (ts - 10 * 60 * 1000) (default_thresh cfg)")
          case (Inl x)
          with u cn st p2 show ?thesis by (simp add: f ingest_detect_def Let_def)
        next
          case (Inr m)
          with u cn st p2 show ?thesis by (simp add: f ingest_detect_def Let_def)
        qed
      qed
    qed
  qed
qed

lemma ingest_detect_rows:
  "r \<in> set (prints (snd (fst (ingest_detect cfg now d f n)))) \<Longrightarrow>
   r \<in> set (prints d) \<or> stored_flags_ok (pr_flags r)"
  using ingest_detect_prints [of cfg now d f n] by auto

lemma ingest_trades_rows:
  "r \<in> set (prints (p_db (snd (ingest_trades cfg e act itrs p)))) \<Longrightarrow>
   r \<in> set (prints (p_db p)) \<or> stored_flags_ok (pr_flags r)"
proof (induction itrs arbitrary: p)
  case Nil
  then show ?case by simp
next
  case (Cons a itrs)
  obtain i tr where a: "a = (i, tr)" by (cases a)
  let ?f = "trade_core_fields cfg (now_parse e i) tr"
  let ?n = "trade_notional_usd tr"
  show ?case
  proof (cases "?n \<le> 0")
    case True
    with Cons show ?thesis by (simp add: a Let_def)
  next
    case False
    obtain x0 d2 flags
      where det: "ingest_detect cfg (now_counts e i) (p_db p) ?f ?n = ((x0, d2), flags)"
      by (cases "ingest_detect cfg (now_counts e i) (p_db p) ?f ?n") auto
    obtain x sent' where nt: "ingest_notify cfg e i ?f ?n flags act (p_sent p) = (x, sent')"
      by (cases "ingest_notify cfg e i ?f ?n flags act (p_sent p)")
    have d2: "r \<in> set (prints d2) \<Longrightarrow> r \<in> set (prints (p_db p)) \<or> stored_flags_ok (pr_flags r)"
      using ingest_detect_rows [of r cfg "now_counts e i" "p_db p" ?f ?n] det by simp
    show ?thesis
    proof (cases x0)
      case (Some y0)
      with Cons.prems False det a have "r \<in> set (prints d2)"
        by (simp add: Let_def)
      with d2 show ?thesis by simp
    next
      case det_ok: None
      show ?thesis
      proof (cases x)
        case None
        with Cons.prems False det det_ok nt a
        have "r \<in> set (prints (p_db (snd (ingest_trades cfg e act itrs
                (p\<lparr>p_db := d2, p_sent := sent',
                   p_max_seen := (if fst (snd ?f) > p_max_seen p then fst (snd ?f)
                                  else p_max_seen p)\<rparr>)))))"
          by (simp add: Let_def)
        from Cons.IH [OF this] d2 show ?thesis by auto
      next
        case (Some y)
        with Cons.prems False det det_ok nt a have "r \<in> set (prints d2)"
          by (simp add: Let_def)
        with d2 show ?thesis by simp
      qed
    qed
  qed
qed

lemma ingest_cycle_rows:
  "r \<in> set (prints (ls_db (ingest_cycle cfg U e st))) \<Longrightarrow>
   r \<in> set (prints (ls_db st)) \<or> stored_flags_ok (pr_flags r)"
proof -
  assume r: "r \<in> set (prints (ls_db (ingest_cycle cfg U e st)))"
  obtain res k1 where f: "fetch_trades_since U (ls_kalshi st) (ls_last_ts st) 1000 = (res, k1)"
    by (cases "fetch_trades_since U (ls_kalshi st) (ls_last_ts st) 1000")
  show ?thesis
  proof (cases res)
    case (Inl err)
    with r f show ?thesis by (simp add: ingest_cycle_def)
  next
    case (Inr trades)
    show ?thesis
    proof (cases "trades = []")
      case True
      with r f Inr show ?thesis by (simp add: ingest_cycle_def)
    next
      case False
      let ?p0 = "\<lparr>p_db = ls_db st, p_sent = [], p_max_seen = ls_last_ts st\<rparr>"
      let ?act = "enumerate 0 (active_subs (load_subscribers (ls_db st)))"
      obtain x p where t: "ingest_trades cfg e ?act (enumerate 0 trades) ?p0 = (x, p)"
        by (cases "ingest_trades cfg e ?act (enumerate 0 trades) ?p0")
      from r f Inr False t have "r \<in> set (prints (p_db p))"
        by (cases x) (simp_all add: ingest_cycle_def db_set_def split: if_splits)
      then have "r \<in> set (prints (p_db (snd (ingest_trades cfg e ?act (enumerate 0 trades) ?p0))))"
        using t by simp
      from ingest_trades_rows [OF this] show ?thesis by simp
    qed
  qed
qed

lemma ingest_loop_rows:
  "r \<in> set (prints (ls_db (ingest_loop cfg U ticks st))) \<Longrightarrow>
   r \<in> set (prints (ls_db st)) \<or> stored_flags_ok (pr_flags r)"
proof (induction ticks arbitrary: st)
  case Nil
  then show ?case by simp
next
  case (Cons t ticks)
  show ?case
  proof (cases "ls_raised st = None")
    case False
    with Cons.prems show ?thesis by simp
  next
    case True
    let ?st1 = "st\<lparr>ls_kalshi := other_gets U (ls_kalshi st) (tk_gets t),
                    ls_db := (ls_db st)\<lparr>subs := tk_subs t\<rparr>\<rparr>"
    from Cons.prems True
    have "r \<in> set (prints (ls_db (ingest_loop cfg U ticks (ingest_cycle cfg U (tk_env t) ?st1))))"
      by simp
    from Cons.IH [OF this]
    have "r \<in> set (prints (ls_db (ingest_cycle cfg U (tk_env t) ?st1)))
          \<or> stored_flags_ok (pr_flags r)" .
    then show ?thesis
      using ingest_cycle_rows [of r cfg U "tk_env t" ?st1] by auto
  qed
qed

text \<open>
  C10. Whatever the upstream, the subscribers and the transport do over any number of
  poll cycles, every row of \<open>prints\<close> that the loop wrote has in its \<open>flags\<close> column one of
  the four strings made of Silent-breaker and Unusual size, and so does not contain
  Accumulation.
\<close>

theorem stored_flags_never_accumulation:
  "\<forall>r \<in> set (prints (ls_db (ingest_loop cfg U ticks st))).
     r \<in> set (prints (ls_db st))
     \<or> (stored_flags_ok (pr_flags r) \<and> \<not> contains ''Accumulation'' (pr_flags r))"
  using ingest_loop_rows stored_flags_no_accumulation by blast

lemmas notify_defs = topic_match_def clean_title_def fmt_alert_text_def flag_str_def
  kalshi_market_url_from_ticker_def

lemmas ex_eval = ex_sub_def ex_trade_fields ex_trade_notional upper_X Let_def store_defs
  ex_cfg_def ex_env_def ex_db_def notify_defs ex_row_def ex_alert_def

lemma ingest_trades_Cons:
  "ingest_trades cfg e act (a # itrs) p =
     (case ingest_trades cfg e act [a] p of
        (None, p') \<Rightarrow> ingest_trades cfg e act itrs p'
      | (Some x, p') \<Rightarrow> (Some x, p'))"
  by (cases a) (simp add: Let_def split: prod.splits option.splits)

lemma ex_three_1:
  "ingest_trades ex_cfg ex_env [(0, 7, 1000, ''all'', ''UTC'')]
     [(0, ex_trade ''T1'' ''X'' 1700000001000 10000 55)]
     \<lparr>p_db = ex_db [ex_sub 7 1000], p_sent = [], p_max_seen = 1700000000000\<rparr>
   = (None,
      \<lparr>p_db = (ex_db [ex_sub 7 1000])\<lparr>prints := [ex_row ''T1'' 1700000001000],
                 stats := [''X'' \<mapsto> 1700000001000]\<rparr>,
       p_sent = [(ex_alert 7 1700000001000 ''Whale'', Sent)],
       p_max_seen = 1700000001000\<rparr>)"
  by (simp add: ex_eval)

lemma ex_three_2:
  "ingest_trades ex_cfg ex_env [(0, 7, 1000, ''all'', ''UTC'')]
     [(1, ex_trade ''T2'' ''X'' 1700000002000 10000 55)]
     \<lparr>p_db = (ex_db [ex_sub 7 1000])\<lparr>prints := [ex_row ''T1'' 1700000001000],
                 stats := [''X'' \<mapsto> 1700000001000]\<rparr>,
       p_sent = [(ex_alert 7 1700000001000 ''Whale'', Sent)],
       p_max_seen = 1700000001000\<rparr>
   = (None,
      \<lparr>p_db = (ex_db [ex_sub 7 1000])\<lparr>prints := [ex_row ''T1'' 1700000001000,
                   ex_row ''T2'' 1700000002000],
                 stats := [''X'' \<mapsto> 1700000002000]\<rparr>,
       p_sent = [(ex_alert 7 1700000001000 ''Whale'', Sent),
                 (ex_alert 7 1700000002000 ''Whale'', Sent)],
       p_max_seen = 1700000002000\<rparr>)"
  by (simp add: ex_eval)

lemma ex_three_3:
  "ingest_trades ex_cfg ex_env [(0, 7, 1000, ''all'', ''UTC'')]
     [(2, ex_trade ''T3'' ''X'' 1700000003000 10000 55)]
     \<lparr>p_db = (ex_db [ex_sub 7 1000])\<lparr>prints := [ex_row ''T1'' 1700000001000,
                   ex_row ''T2'' 1700000002000],
                 stats := [''X'' \<mapsto> 1700000002000]\<rparr>,
       p_sent = [(ex_alert 7 1700000001000 ''Whale'', Sent),
                 (ex_alert 7 1700000002000 ''Whale'', Sent)],
       p_max_seen = 1700000002000\<rparr>
   = (None,
      \<lparr>p_db = (ex_db [ex_sub 7 1000])\<lparr>prints := [ex_row ''T1'' 1700000001000,
                   ex_row ''T2'' 1700000002000, ex_row ''T3'' 1700000003000],
                 stats := [''X'' \<mapsto> 1700000003000]\<rparr>,
       p_sent = [(ex_alert 7 1700000001000 ''Whale'', Sent),
                 (ex_alert 7 1700000002000 ''Whale'', Sent),
                 (ex_alert 7 1700000003000 ''Accumulation'', Sent)],
       p_max_seen = 1700000003000\<rparr>)"
  by (simp add: ex_eval)

lemma ex_three_batch:
  "ingest_trades ex_cfg ex_env (enumerate 0 (active_subs [ex_sub 7 1000])) (enumerate 0 ex_three)
     \<lparr>p_db = ex_db [ex_sub 7 1000], p_sent = [], p_max_seen = 1700000000000\<rparr>
   = (None,
      \<lparr>p_db = (ex_db [ex_sub 7 1000])\<lparr>prints := [ex_row ''T1'' 1700000001000,
                   ex_row ''T2'' 1700000002000, ex_row ''T3'' 1700000003000],
                 stats := [''X'' \<mapsto> 1700000003000]\<rparr>,
       p_sent = [(ex_alert 7 1700000001000 ''Whale'', Sent),
                 (ex_alert 7 1700000002000 ''Whale'', Sent),
                 (ex_alert 7 1700000003000 ''Accumulation'', Sent)],
       p_max_seen = 1700000003000\<rparr>)"
proof -
  have act: "enumerate 0 (active_subs [ex_sub 7 1000]) = [(0, 7, 1000, ''all'', ''UTC'')]"
    by (simp add: active_subs_def ex_sub_def enumerate_eq_zip)
  have trs: "enumerate 0 ex_three =
      [(0, ex_trade ''T1'' ''X'' 1700000001000 10000 55),
       (1, ex_trade ''T2'' ''X'' 1700000002000 10000 55),
       (2, ex_trade ''T3'' ''X'' 1700000003000 10000 55)]"
    by (simp add: ex_three_def enumerate_eq_zip)
  show ?thesis
    unfolding act trs
    by (subst ingest_trades_Cons, simp only: ex_three_1 prod.case option.case,
        subst ingest_trades_Cons, simp only: ex_three_2 prod.case option.case,
        simp only: ex_three_3)
qed

lemma ex_db_subs [simp]: "subs (ex_db sbs) = sbs"
  by (simp add: ex_db_def)

lemma ingest_loop_single:
  "ls_raised st = None \<Longrightarrow>
   ingest_loop cfg U [t] st =
     ingest_cycle cfg U (tk_env t)
       (st\<lparr>ls_kalshi := other_gets U (ls_kalshi st) (tk_gets t),
           ls_db := (ls_db st)\<lparr>subs := tk_subs t\<rparr>\<rparr>)"
  by simp

theorem stored_flags_never_accumulation_witness:
  "map pr_flags (prints (ls_db (ingest_loop ex_cfg (ex_upstream ex_three)
      [ex_tick [ex_sub 7 1000]] (ex_state (Some True) 1700000000000 [])))) = [[], [], []]
   \<and> list_all (\<lambda>r. \<not> contains ''Accumulation'' (pr_flags r))
       (prints (ls_db (ingest_loop ex_cfg (ex_upstream ex_three)
          [ex_tick [ex_sub 7 1000]] (ex_state (Some True) 1700000000000 []))))
   \<and> map (\<lambda>a. al_signal (fst a)) (ls_sent (ingest_loop ex_cfg (ex_upstream ex_three)
      [ex_tick [ex_sub 7 1000]] (ex_state (Some True) 1700000000000 [])))
     = [''Whale'', ''Whale'', ''Accumulation'']"
proof -
  let ?st = "(ex_state (Some True) 1700000000000 [])\<lparr>
      ls_kalshi := other_gets (ex_upstream ex_three) (ls_kalshi (ex_state (Some True) 1700000000000 []))
                     (tk_gets (ex_tick [ex_sub 7 1000])),
      ls_db := (ls_db (ex_state (Some True) 1700000000000 []))\<lparr>subs := tk_subs (ex_tick [ex_sub 7 1000])\<rparr>\<rparr>"
  have loop: "ingest_loop ex_cfg (ex_upstream ex_three) [ex_tick [ex_sub 7 1000]]
          (ex_state (Some True) 1700000000000 [])
        = ingest_cycle ex_cfg (ex_upstream ex_three) ex_env ?st"
    by (subst ingest_loop_single) (simp_all add: ex_state_def ex_tick_def)
  have st: "ls_kalshi ?st = ex_kalshi (Some True)" "ls_last_ts ?st = 1700000000000"
    "ls_db ?st = ex_db [ex_sub 7 1000]" "ls_sent ?st = []"
    by (simp_all add: ex_state_def ex_tick_def other_gets_def ex_db_def)
  have f: "fst (fetch_trades_since (ex_upstream ex_three) (ls_kalshi ?st) (ls_last_ts ?st) 1000)
             = Inr ex_three"
    unfolding st by (rule fetch_ex_supported) (simp add: ex_three_def)
  have b: "ingest_trades ex_cfg ex_env (enumerate 0 (active_subs (load_subscribers (ls_db ?st))))
      (enumerate 0 ex_three) \<lparr>p_db = ls_db ?st, p_sent = [], p_max_seen = ls_last_ts ?st\<rparr>
    = (None,
      \<lparr>p_db = (ex_db [ex_sub 7 1000])\<lparr>prints := [ex_row ''T1'' 1700000001000,
                   ex_row ''T2'' 1700000002000, ex_row ''T3'' 1700000003000],
                 stats := [''X'' \<mapsto> 1700000003000]\<rparr>,
       p_sent = [(ex_alert 7 1700000001000 ''Whale'', Sent),
                 (ex_alert 7 1700000002000 ''Whale'', Sent),
                 (ex_alert 7 1700000003000 ''Accumulation'', Sent)],
       p_max_seen = 1700000003000\<rparr>)"
    unfolding st load_subscribers_def by (simp add: ex_three_batch)
  have ne: "ex_three \<noteq> []" by (simp add: ex_three_def)
  note c = ingest_cycle_fetched [OF f ne b]
  show ?thesis
    using stored_flags_never_accumulation [of ex_cfg "ex_upstream ex_three"
        "[ex_tick [ex_sub 7 1000]]" "ex_state (Some True) 1700000000000 []"]
    unfolding loop by (simp add: c st ex_row_def ex_alert_def)
qed

section \<open>Host failover\<close>



lemma ensure_host_pinned [simp]: "ensure_host U ((ex_kalshi cap)\<lparr>calls := cs\<rparr>) = (ex_kalshi cap)\<lparr>calls := cs\<rparr>"
  by (simp add: ensure_host_def ex_kalshi_def)



section \<open>The min_ts capability\<close>

lemma client_get_frame [simp]:
  "calls (snd (client_get U k url ps)) = calls k"
  "min_ts_supported (snd (client_get U k url ps)) = min_ts_supported k"
  by (simp_all add: client_get_def Let_def)

lemma pick_host_from_frame:
  "calls (pick_host_from U k hs) = calls k
   \<and> min_ts_supported (pick_host_from U k hs) = min_ts_supported k"
proof (induction hs arbitrary: k)
  case Nil
  show ?case by simp
next
  case (Cons h hs)
  show ?case
    using Cons.IH [of "k\<lparr>gets := gets k @ [\<lparr>rq_url = h @ ''/markets'',
        rq_params = [(''limit'', PInt 1), (''status'', PStr ''open'')]\<rparr>]\<rparr>"]
    by (simp add: client_get_def Let_def split: get_outcome.splits)
qed

lemma ensure_host_frame [simp]:
  "calls (ensure_host U k) = calls k"
  "min_ts_supported (ensure_host U k) = min_ts_supported k"
  by (simp_all add: ensure_host_def pick_host_def pick_host_from_frame)

lemma try_hosts_frame:
  "calls (snd (try_hosts U path ps k hs le)) = calls k
   \<and> min_ts_supported (snd (try_hosts U path ps k hs le)) = min_ts_supported k"
proof (induction hs arbitrary: k le)
  case Nil
  show ?case by simp
next
  case (Cons h hs)
  let ?k1 = "k\<lparr>gets := gets k @ [\<lparr>rq_url = h @ path, rq_params = ps\<rparr>]\<rparr>"
  show ?case
    using Cons.IH [of ?k1]
    by (simp add: client_get_def Let_def raise_for_status_def
        split: get_outcome.splits transport_exn.splits option.splits)
qed

lemma resilient_get_frame [simp]:
  "calls (snd (resilient_get U k path ps)) = calls k @ [(path, ps)]"
  "min_ts_supported (snd (resilient_get U k path ps)) = min_ts_supported k"
  by (simp_all add: resilient_get_def Let_def try_hosts_frame)

lemma fetch_unsupported:
  "min_ts_supported k = Some False \<Longrightarrow>
   fetch_trades_since U k m l =
     (case resilient_get U k ''/markets/trades'' [(''limit'', PInt l)] of
        (Inr d, k2) \<Rightarrow> (Inr (trades_of d), k2)
      | (Inl e, k2) \<Rightarrow> (Inl e, k2))"
proof -
  assume u: "min_ts_supported k = Some False"
  obtain r k2 where rg: "resilient_get U k ''/markets/trades'' [(''limit'', PInt l)] = (r, k2)"
    by (cases "resilient_get U k ''/markets/trades'' [(''limit'', PInt l)]")
  have "min_ts_supported k2 = Some False"
    using resilient_get_frame(2) [of U k "''/markets/trades''" "[(''limit'', PInt l)]"] rg u
    by simp
  then show ?thesis
    using u rg
    by (simp add: fetch_trades_since_def probe_min_ts_def split: sum.splits py_exn.splits)
qed

lemma fetch_unsupported_frame:
  "min_ts_supported k = Some False \<Longrightarrow>
   min_ts_supported (snd (fetch_trades_since U k m l)) = Some False
   \<and> calls (snd (fetch_trades_since U k m l)) = calls k @ [(''/markets/trades'', [(''limit'', PInt l)])]"
proof -
  assume u: "min_ts_supported k = Some False"
  obtain r k2 where rg: "resilient_get U k ''/markets/trades'' [(''limit'', PInt l)] = (r, k2)"
    by (cases "resilient_get U k ''/markets/trades'' [(''limit'', PInt l)]")
  have "min_ts_supported k2 = Some False"
    "calls k2 = calls k @ [(''/markets/trades'', [(''limit'', PInt l)])]"
    using resilient_get_frame [of U k "''/markets/trades''" "[(''limit'', PInt l)]"] rg u
    by simp_all
  then show ?thesis
    unfolding fetch_unsupported [OF u] rg by (cases r) simp_all
qed

lemma run_calls_unsupported:
  "min_ts_supported k = Some False \<Longrightarrow> min_ts_supported (run_calls U k cs) = Some False"
proof (induction cs arbitrary: k)
  case Nil
  then show ?case by simp
next
  case (Cons c cs)
  then show ?case
    by (cases c) (simp_all add: fetch_unsupported_frame)
qed

text \<open>
  C7. The fetcher is in the supported state and the filtered call of \<open>fetch_trades_since\<close>
  ends in HTTPStatusError 400. Then the function makes exactly one more call, without
  \<open>min_ts\<close>, and returns what that call gives, trades or error; the state is unsupported
  afterwards; and after any further sequence of calls on the fetcher the state is still
  unsupported and a call of \<open>fetch_trades_since\<close> makes one request, without \<open>min_ts\<close>.
\<close>

theorem capability_downgrade:
  assumes sup: "min_ts_supported k = Some True"
    and bad: "fst (resilient_get U k ''/markets/trades''
                [(''limit'', PInt l), (''min_ts'', PInt m)]) = Inl (HTTPStatusError 400)"
  shows "fetch_trades_since U k m l =
           (case resilient_get U
                   ((snd (resilient_get U k ''/markets/trades''
                            [(''limit'', PInt l), (''min_ts'', PInt m)]))
                      \<lparr>min_ts_supported := Some False\<rparr>)
                   ''/markets/trades'' [(''limit'', PInt l)] of
              (Inr d, k3) \<Rightarrow> (Inr (trades_of d), k3)
            | (Inl e, k3) \<Rightarrow> (Inl e, k3))
         \<and> min_ts_supported (snd (fetch_trades_since U k m l)) = Some False
         \<and> calls (snd (fetch_trades_since U k m l))
             = calls k @ [(''/markets/trades'', [(''limit'', PInt l), (''min_ts'', PInt m)]),
                          (''/markets/trades'', [(''limit'', PInt l)])]
         \<and> (\<forall>cs. min_ts_supported (run_calls U (snd (fetch_trades_since U k m l)) cs)
                   = Some False)
         \<and> (\<forall>cs m' l'.
               calls (snd (fetch_trades_since U
                             (run_calls U (snd (fetch_trades_since U k m l)) cs) m' l'))
               = calls (run_calls U (snd (fetch_trades_since U k m l)) cs)
                   @ [(''/markets/trades'', [(''limit'', PInt l')])])"
proof -
  let ?ps = "[(''limit'', PInt l), (''min_ts'', PInt m)]"
  obtain r1 k2 where r1: "resilient_get U k ''/markets/trades'' ?ps = (r1, k2)"
    by (cases "resilient_get U k ''/markets/trades'' ?ps")
  with bad have r1e: "r1 = Inl (HTTPStatusError 400)" by simp
  have k2: "min_ts_supported k2 = Some True" "calls k2 = calls k @ [(''/markets/trades'', ?ps)]"
    using resilient_get_frame [of U k "''/markets/trades''" ?ps] r1 sup by simp_all
  let ?k2 = "k2\<lparr>min_ts_supported := Some False\<rparr>"
  obtain r3 k3 where r3: "resilient_get U ?k2 ''/markets/trades'' [(''limit'', PInt l)] = (r3, k3)"
    by (cases "resilient_get U ?k2 ''/markets/trades'' [(''limit'', PInt l)]")
  have k3: "min_ts_supported k3 = Some False"
    "calls k3 = calls k @ [(''/markets/trades'', ?ps), (''/markets/trades'', [(''limit'', PInt l)])]"
    using resilient_get_frame [of U ?k2 "''/markets/trades''" "[(''limit'', PInt l)]"] r3 k2
    by simp_all
  have eq: "fetch_trades_since U k m l =
      (case r3 of Inr d \<Rightarrow> (Inr (trades_of d), k3) | Inl e \<Rightarrow> (Inl e, k3))"
    using sup r1 r1e k2 r3
    by (simp add: fetch_trades_since_def probe_min_ts_def split: sum.splits)
  have s: "snd (fetch_trades_since U k m l) = k3"
    unfolding eq by (cases r3) simp_all
  show ?thesis
    unfolding s
    using eq r1 r3 k3
    by (auto simp: run_calls_unsupported fetch_unsupported_frame split: sum.splits)
qed

theorem capability_downgrade_witness:
  "min_ts_supported (ex_kalshi (Some True)) = Some True
   \<and> fst (resilient_get ex_reject (ex_kalshi (Some True)) ''/markets/trades''
           [(''limit'', PInt 1000), (''min_ts'', PInt 1700000000000)])
       = Inl (HTTPStatusError 400)
   \<and> fst (fetch_trades_since ex_reject (ex_kalshi (Some True)) 1700000000000 1000)
       = Inr ex_three
   \<and> min_ts_supported (snd (fetch_trades_since ex_reject (ex_kalshi (Some True))
         1700000000000 1000)) = Some False
   \<and> calls (snd (fetch_trades_since ex_reject (ex_kalshi (Some True)) 1700000000000 1000))
       = [(''/markets/trades'', [(''limit'', PInt 1000), (''min_ts'', PInt 1700000000000)]),
          (''/markets/trades'', [(''limit'', PInt 1000)])]"
proof -
  have sup: "min_ts_supported (ex_kalshi (Some True)) = Some True"
    by (simp add: ex_kalshi_def)
  have bad: "fst (resilient_get ex_reject (ex_kalshi (Some True)) ''/markets/trades''
           [(''limit'', PInt 1000), (''min_ts'', PInt 1700000000000)])
       = Inl (HTTPStatusError 400)"
    by (simp add: http_defs ex_kalshi_def ex_reject_def Let_def)
  have ok: "fst (fetch_trades_since ex_reject (ex_kalshi (Some True)) 1700000000000 1000)
       = Inr ex_three"
    by (simp add: http_defs ex_kalshi_def ex_reject_def Let_def ex_three_def
        trades_of_def ex_body_def por_def)
  have c: "calls (ex_kalshi (Some True)) = []"
    by (simp add: ex_kalshi_def)
  from capability_downgrade [OF sup bad]
  have "min_ts_supported (snd (fetch_trades_since ex_reject (ex_kalshi (Some True))
         1700000000000 1000)) = Some False"
    and "calls (snd (fetch_trades_since ex_reject (ex_kalshi (Some True)) 1700000000000 1000))
       = calls (ex_kalshi (Some True))
         @ [(''/markets/trades'', [(''limit'', PInt 1000), (''min_ts'', PInt 1700000000000)]),
            (''/markets/trades'', [(''limit'', PInt 1000)])]"
    by blast+
  with sup bad ok c show ?thesis
    by simp
qed

section \<open>The watermark\<close>


























section \<open>Latest-trades mode\<close>















section \<open>Dispatch failures\<close>









end
